theory Spec2Isabelle
  imports Complex_Main "HOL-Library.AList"
begin

section \<open>Python values\<close>

text \<open>
  A Python \<open>str\<close> is a sequence of Unicode code points, modelled as a list of naturals.
  Program literals (dictionary keys, SQL text, messages) are ASCII and are kept as HOL
  strings; \<open>lit\<close> turns such a literal into a Python string value.
  A Python \<open>float\<close> is modelled as a real number: finite values without rounding,
  overflow or NaN.
\<close>

type_synonym pystr = "nat list"

definition lit :: "string \<Rightarrow> pystr" where
  "lit s = map of_char s"

text \<open>
  \<open>str.isspace\<close> for one code point: the code points CPython treats as whitespace
  (bidirectional class WS, B or S, or category Zs).
\<close>

definition isspace :: "nat \<Rightarrow> bool" where
  "isspace c = ((9 \<le> c \<and> c \<le> 13) \<or> (28 \<le> c \<and> c \<le> 32) \<or> c = 133 \<or> c = 160
     \<or> c = 5760 \<or> (8192 \<le> c \<and> c \<le> 8202) \<or> c = 8232 \<or> c = 8233 \<or> c = 8239
     \<or> c = 8287 \<or> c = 12288)"

definition lstrip :: "pystr \<Rightarrow> pystr" where
  "lstrip s = dropWhile isspace s"

definition rstrip :: "pystr \<Rightarrow> pystr" where
  "rstrip s = rev (dropWhile isspace (rev s))"

definition strip :: "pystr \<Rightarrow> pystr" where
  "strip s = rstrip (lstrip s)"

text \<open>\<open>x or ""\<close> for an optional string \<open>x\<close>: \<open>None\<close> and \<open>""\<close> are both falsy.\<close>

fun or_empty :: "pystr option \<Rightarrow> pystr" where
  "or_empty None = []"
| "or_empty (Some s) = s"

text \<open>\<open>x or None\<close> for a string \<open>x\<close>.\<close>

definition or_none :: "pystr \<Rightarrow> pystr option" where
  "or_none s = (if s = [] then None else Some s)"

datatype pyval = PNone | PInt int | PFloat real | PStr pystr | PVec "real list"

fun opt_str :: "pystr option \<Rightarrow> pyval" where
  "opt_str None = PNone"
| "opt_str (Some s) = PStr s"

fun opt_int :: "int option \<Rightarrow> pyval" where
  "opt_int None = PNone"
| "opt_int (Some i) = PInt i"

text \<open>A \<open>dict\<close> with literal keys, in insertion order.\<close>

type_synonym pydict = "(string \<times> pyval) list"

text \<open>A row as the database driver returns it: a tuple of any width.\<close>

type_synonym row = "pyval list"

datatype error =
    RuntimeError string
  | TypeError
  | ValueError
  | OSError
  | ProviderError
  | StoreError

section \<open>The world outside the program\<close>

text \<open>
  The rows of table \<open>public.feedback\<close>: the identifier the database assigned and the
  eight columns the ingestion job writes.
\<close>

record feedback_record =
  fr_id :: pyval
  fr_source :: pystr
  fr_country :: "pystr option"
  fr_platform :: "pystr option"
  fr_rating :: "int option"
  fr_user_type :: "pystr option"
  fr_created_at :: "pystr option"
  fr_text :: pystr
  fr_embedding :: "real list"

datatype params = NoParams | Positional "pyval list" | Named pydict

text \<open>Every call that leaves the process is logged, oldest first.\<close>

datatype event =
    EmbeddingsCreate pystr pystr pystr
  | Connect "pystr option"
  | Execute string params

text \<open>
  \<open>environ\<close> is the process environment after \<open>load_dotenv\<close>; \<open>client\<close> is the
  module global \<open>_client\<close> of \<open>scripts/search_feedback.py\<close> (the API key the client was
  built with); \<open>feedback\<close> is the table in the store; \<open>calls\<close> is the log.
\<close>

record world =
  environ :: "string \<rightharpoonup> pystr"
  client :: "pystr option"
  feedback :: "feedback_record list"
  calls :: "event list"

text \<open>
  The collaborators that are not code of the repository, as functions the model is
  parametric in. \<open>embeddings_create key model input\<close> is the provider's answer
  (\<open>None\<close>: the call raised); \<open>pg_connect url\<close> tells whether the store accepts the
  connection; \<open>pg_match_feedback\<close> is the SQL function \<open>match_feedback\<close> that lives in
  the database (\<open>None\<close>: the statement raised); \<open>pg_execute table sql params\<close> is
  what the store answers to any other statement with its bound parameters (\<open>None\<close>:
  the statement raised); \<open>pg_can_delete\<close> and \<open>pg_accepts\<close> tell
  whether the delete and an insert succeed and \<open>pg_new_id\<close> which identifier the
  inserted record gets; \<open>float_of_str\<close> is \<open>float\<close> on strings (\<open>None\<close>: ValueError);
  \<open>repr_float\<close> and \<open>format_3f\<close> print a float as \<open>str\<close> and as \<open>format(x, '.3f')\<close>;
  \<open>decimal_digit\<close> gives the value of a code point of category Nd and \<open>other_digit\<close>
  holds for the remaining code points for which \<open>str.isdigit\<close> is true.
\<close>

record extern =
  embeddings_create :: "pystr \<Rightarrow> pystr \<Rightarrow> pystr \<Rightarrow> real list option"
  pg_connect :: "pystr option \<Rightarrow> bool"
  pg_match_feedback :: "feedback_record list \<Rightarrow> real list \<Rightarrow> int \<Rightarrow> pystr option
    \<Rightarrow> pystr option \<Rightarrow> pystr option \<Rightarrow> row list option"
  pg_execute :: "feedback_record list \<Rightarrow> string \<Rightarrow> params \<Rightarrow> row list option"
  pg_can_delete :: "feedback_record list \<Rightarrow> bool"
  pg_accepts :: "feedback_record list \<Rightarrow> row \<Rightarrow> bool"
  pg_new_id :: "feedback_record list \<Rightarrow> pyval"
  float_of_str :: "pystr \<rightharpoonup> real"
  repr_float :: "real \<Rightarrow> pystr"
  format_3f :: "real \<Rightarrow> pystr"
  decimal_digit :: "nat \<rightharpoonup> nat"
  other_digit :: "nat \<Rightarrow> bool"

definition getenv :: "world \<Rightarrow> string \<Rightarrow> pystr option" where
  "getenv w name = environ w name"

definition getenv_default :: "world \<Rightarrow> string \<Rightarrow> pystr \<Rightarrow> pystr" where
  "getenv_default w name d = (case environ w name of None \<Rightarrow> d | Some v \<Rightarrow> v)"

definition log_call :: "event \<Rightarrow> world \<Rightarrow> world" where
  "log_call e w = w\<lparr>calls := calls w @ [e]\<rparr>"

text \<open>\<open>float(v)\<close>.\<close>

fun py_float :: "extern \<Rightarrow> pyval \<Rightarrow> error + real" where
  "py_float x PNone = Inl TypeError"
| "py_float x (PInt i) = Inr (of_int i)"
| "py_float x (PFloat r) = Inr r"
| "py_float x (PStr s) = (case float_of_str x s of None \<Rightarrow> Inl ValueError | Some r \<Rightarrow> Inr r)"
| "py_float x (PVec v) = Inl TypeError"

section \<open>scripts/search\_feedback.py\<close>

definition get_client :: "world \<Rightarrow> (error + pystr) \<times> world" where
  "get_client w =
     (case client w of
        Some c \<Rightarrow> (Inr c, w)
      | None \<Rightarrow>
         (case getenv w ''OPENAI_API_KEY'' of
            None \<Rightarrow> (Inl (RuntimeError ''Missing OPENAI_API_KEY in .env''), w)
          | Some api_key \<Rightarrow>
              if api_key = [] then (Inl (RuntimeError ''Missing OPENAI_API_KEY in .env''), w)
              else (Inr api_key, w\<lparr>client := Some api_key\<rparr>)))"

definition embed :: "extern \<Rightarrow> world \<Rightarrow> pystr \<Rightarrow> (error + real list) \<times> world" where
  "embed x w text =
     (let model = getenv_default w ''OPENAI_EMBED_MODEL'' (lit ''text-embedding-3-small'') in
      case get_client w of
        (Inl e, w1) \<Rightarrow> (Inl e, w1)
      | (Inr c, w1) \<Rightarrow>
          (let w2 = log_call (EmbeddingsCreate c model text) w1 in
           case embeddings_create x c model text of
             None \<Rightarrow> (Inl ProviderError, w2)
           | Some v \<Rightarrow> (Inr v, w2)))"

definition match_feedback_sql :: string where
  "match_feedback_sql = concat
    [''\<newline>'',
     ''                select * from match_feedback(\<newline>'',
     ''                    %s::vector(1536),\<newline>'',
     ''                    %s,\<newline>'',
     ''                    %s,\<newline>'',
     ''                    %s,\<newline>'',
     ''                    %s\<newline>'',
     ''                );\<newline>'',
     ''                '']"

text \<open>
  The body of the loop over the fetched rows: unpacking a row into six names raises
  ValueError for any other width, and \<open>float(similarity)\<close> may raise.
\<close>

fun result_of_row :: "extern \<Rightarrow> row \<Rightarrow> error + pydict" where
  "result_of_row x [ident, content, country, platform, rating, similarity] =
     (case py_float x similarity of
        Inl e \<Rightarrow> Inl e
      | Inr f \<Rightarrow> Inr [(''id'', ident), (''text'', content), (''country'', country),
                     (''platform'', platform), (''rating'', rating),
                     (''similarity'', PFloat f)])"
| "result_of_row x r = Inl ValueError"

fun results_loop :: "extern \<Rightarrow> pydict list \<Rightarrow> row list \<Rightarrow> error + pydict list" where
  "results_loop x results [] = Inr results"
| "results_loop x results (r # rows) =
     (case result_of_row x r of
        Inl e \<Rightarrow> Inl e
      | Inr d \<Rightarrow> results_loop x (results @ [d]) rows)"

definition search_feedback ::
  "extern \<Rightarrow> world \<Rightarrow> pystr option \<Rightarrow> int \<Rightarrow> pystr option \<Rightarrow> pystr option \<Rightarrow> pystr option
    \<Rightarrow> (error + pydict list) \<times> world" where
  "search_feedback x w query top_k country platform user_type =
     (case getenv w ''SUPABASE_DB_URL'' of
        None \<Rightarrow> (Inl (RuntimeError ''Missing SUPABASE_DB_URL in .env''), w)
      | Some db_url \<Rightarrow>
          if db_url = [] then (Inl (RuntimeError ''Missing SUPABASE_DB_URL in .env''), w)
          else
            (let query' = strip (or_empty query) in
             if query' = [] then (Inr [], w)
             else
               (case embed x w query' of
                  (Inl e, w1) \<Rightarrow> (Inl e, w1)
                | (Inr qvec, w1) \<Rightarrow>
                    (let w2 = log_call (Connect (Some db_url)) w1 in
                     if \<not> pg_connect x (Some db_url) then (Inl StoreError, w2)
                     else
                       (let w3 = log_call (Execute match_feedback_sql
                                   (Positional [PVec qvec, PInt top_k, opt_str country,
                                                opt_str platform, opt_str user_type])) w2 in
                        case pg_match_feedback x (feedback w3) qvec top_k country platform
                               user_type of
                          None \<Rightarrow> (Inl StoreError, w3)
                        | Some rows \<Rightarrow> (results_loop x [] rows, w3))))))"

section \<open>src/agents/retrieval.py\<close>

text \<open>
  The module builds its client when it is imported; \<open>c\<close> below is the API key of that
  client.
\<close>

definition embed_text ::
  "extern \<Rightarrow> pystr \<Rightarrow> world \<Rightarrow> pystr \<Rightarrow> pystr \<Rightarrow> (error + real list) \<times> world" where
  "embed_text x c w text model =
     (let w1 = log_call (EmbeddingsCreate c model text) w in
      case embeddings_create x c model text of
        None \<Rightarrow> (Inl ProviderError, w1)
      | Some v \<Rightarrow> (Inr v, w1))"

text \<open>\<open>sep.join(xs)\<close>.\<close>

fun join :: "'a list \<Rightarrow> 'a list list \<Rightarrow> 'a list" where
  "join sep [] = []"
| "join sep [s] = s"
| "join sep (s # t # ss) = s @ sep @ join sep (t # ss)"

text \<open>
  Lines 23 to 32: the list \<open>filters\<close> and the dictionary \<open>params\<close> after the two
  conditionals. \<open>platform and platform.strip()\<close> is truthy when \<open>platform\<close> is neither
  \<open>None\<close> nor empty and its stripped value is not empty.
\<close>

definition retrieval_filters ::
  "pystr option \<Rightarrow> pystr option \<Rightarrow> real list \<Rightarrow> int \<Rightarrow> string list \<times> pydict" where
  "retrieval_filters platform country q_emb top_k =
     (let filters0 = [];
          params0 = [(''q_emb'', PVec q_emb), (''k'', PInt top_k)];
          (filters1, params1) =
            (case platform of
               None \<Rightarrow> (filters0, params0)
             | Some p \<Rightarrow>
                 if p \<noteq> [] \<and> strip p \<noteq> []
                 then (filters0 @ [''platform = %(platform)s''],
                       AList.update ''platform'' (PStr (strip p)) params0)
                 else (filters0, params0))
      in (case country of
            None \<Rightarrow> (filters1, params1)
          | Some c \<Rightarrow>
              if c \<noteq> [] \<and> strip c \<noteq> []
              then (filters1 @ [''country = %(country)s''],
                    AList.update ''country'' (PStr (strip c)) params1)
              else (filters1, params1)))"

definition where_clause :: "string list \<Rightarrow> string" where
  "where_clause filters = (if filters \<noteq> [] then ''where '' @ join '' and '' filters else [])"

definition retrieval_sql :: "string \<Rightarrow> string" where
  "retrieval_sql wc = concat
    [''\<newline>'',
     ''    select\<newline>'',
     ''      id,\<newline>'',
     ''      country,\<newline>'',
     ''      platform,\<newline>'',
     ''      rating,\<newline>'',
     ''      text,\<newline>'',
     ''      1 - (embedding <=> %(q_emb)s) as score\<newline>'',
     ''    from public.feedback\<newline>'',
     ''    '', wc, ''\<newline>'',
     ''    order by embedding <=> %(q_emb)s\<newline>'',
     ''    limit %(k)s;\<newline>'',
     ''    '']"

fun retrieval_result_of_row :: "extern \<Rightarrow> row \<Rightarrow> error + pydict" where
  "retrieval_result_of_row x [ident, country, platform, rating, text, score] =
     (case py_float x score of
        Inl e \<Rightarrow> Inl e
      | Inr f \<Rightarrow> Inr [(''id'', ident), (''country'', country), (''platform'', platform),
                     (''rating'', rating), (''text'', text), (''score'', PFloat f)])"
| "retrieval_result_of_row x r = Inl ValueError"

fun retrieval_results_loop ::
  "extern \<Rightarrow> pydict list \<Rightarrow> row list \<Rightarrow> error + pydict list" where
  "retrieval_results_loop x results [] = Inr results"
| "retrieval_results_loop x results (r # rows) =
     (case retrieval_result_of_row x r of
        Inl e \<Rightarrow> Inl e
      | Inr d \<Rightarrow> retrieval_results_loop x (results @ [d]) rows)"

definition retrieval_search_feedback ::
  "extern \<Rightarrow> pystr \<Rightarrow> world \<Rightarrow> pystr \<Rightarrow> int \<Rightarrow> pystr option \<Rightarrow> pystr option
    \<Rightarrow> (error + pydict list) \<times> world" where
  "retrieval_search_feedback x c w question top_k platform country =
     (let db_url = getenv w ''SUPABASE_DB_URL'';
          embed_model = getenv_default w ''OPENAI_EMBED_MODEL'' (lit ''text-embedding-3-small'')
      in case embed_text x c w question embed_model of
           (Inl e, w1) \<Rightarrow> (Inl e, w1)
         | (Inr q_emb, w1) \<Rightarrow>
             (let (filters, params) = retrieval_filters platform country q_emb top_k;
                  sql = retrieval_sql (where_clause filters);
                  w2 = log_call (Connect db_url) w1
              in if \<not> pg_connect x db_url then (Inl StoreError, w2)
                 else
                   (let w3 = log_call (Execute sql (Named params)) w2 in
                    case pg_execute x (feedback w3) sql (Named params) of
                      None \<Rightarrow> (Inl StoreError, w3)
                    | Some rows \<Rightarrow> (retrieval_results_loop x [] rows, w3))))"

section \<open>scripts/ingest\_feedback.py\<close>

text \<open>
  A row as \<open>csv.DictReader\<close> yields it; a column that is absent or has no value reads
  as \<open>None\<close> through \<open>r.get\<close>.
\<close>

type_synonym csv_row = "string \<rightharpoonup> pystr"

definition require_env :: "world \<Rightarrow> string \<Rightarrow> error + pystr" where
  "require_env w name =
     (case getenv w name of
        None \<Rightarrow> Inl (RuntimeError (''Missing env var: '' @ name @ ''. Check your .env file.''))
      | Some v \<Rightarrow>
          if v = [] then Inl (RuntimeError (''Missing env var: '' @ name @ ''. Check your .env file.''))
          else Inr v)"

text \<open>\<open>x or d\<close> for an optional string \<open>x\<close>.\<close>

fun or_default :: "pystr option \<Rightarrow> pystr \<Rightarrow> pystr" where
  "or_default None d = d"
| "or_default (Some s) d = (if s = [] then d else s)"

text \<open>
  \<open>str.isdigit\<close> and \<open>int\<close> on a string of digits. Below 128 the digits are
  \<open>0\<close> to \<open>9\<close>; above, the Unicode tables decide. A digit that is not a decimal
  (a superscript, say) passes \<open>isdigit\<close> and makes \<open>int\<close> raise ValueError. The
  interpreter's limit on the length of an integer literal is not modelled.
\<close>

definition digit_value :: "extern \<Rightarrow> nat \<Rightarrow> nat option" where
  "digit_value x c =
     (if c < 128 then (if 48 \<le> c \<and> c \<le> 57 then Some (c - 48) else None)
      else decimal_digit x c)"

definition isdigit_char :: "extern \<Rightarrow> nat \<Rightarrow> bool" where
  "isdigit_char x c =
     (if c < 128 then 48 \<le> c \<and> c \<le> 57
      else (decimal_digit x c \<noteq> None \<or> other_digit x c))"

definition isdigit :: "extern \<Rightarrow> pystr \<Rightarrow> bool" where
  "isdigit x s = (s \<noteq> [] \<and> list_all (isdigit_char x) s)"

fun int_digits :: "extern \<Rightarrow> nat \<Rightarrow> pystr \<Rightarrow> error + int" where
  "int_digits x acc [] = Inr (int acc)"
| "int_digits x acc (c # cs) =
     (case digit_value x c of
        None \<Rightarrow> Inl ValueError
      | Some d \<Rightarrow> int_digits x (10 * acc + d) cs)"

definition delete_sql :: string where
  "delete_sql = ''delete from public.feedback;''"

definition insert_sql :: string where
  "insert_sql = concat
    [''\<newline>'',
     ''                        insert into public.feedback\<newline>'',
     ''                          (source, country, platform, rating, user_type, created_at, text, embedding)\<newline>'',
     ''                        values\<newline>'',
     ''                          (%s, %s, %s, %s, %s, %s, %s, %s::vector)\<newline>'',
     ''                        '']"

text \<open>
  The loop over the rows of the file, with the counter \<open>rows_inserted\<close>. The
  connection commits each statement, so a record inserted before a later row raises
  stays in the table. The progress lines the job prints are left out.
\<close>

fun ingest_rows ::
  "extern \<Rightarrow> pystr \<Rightarrow> pystr \<Rightarrow> world \<Rightarrow> nat \<Rightarrow> csv_row list \<Rightarrow> (error + nat) \<times> world" where
  "ingest_rows x api_key embed_model w rows_inserted [] = (Inr rows_inserted, w)"
| "ingest_rows x api_key embed_model w rows_inserted (r # rs) =
     (let text = strip (or_empty (r ''text'')) in
      if text = [] then ingest_rows x api_key embed_model w rows_inserted rs
      else
        (let w1 = log_call (EmbeddingsCreate api_key embed_model text) w in
         case embeddings_create x api_key embed_model text of
           None \<Rightarrow> (Inl ProviderError, w1)
         | Some emb \<Rightarrow>
             (let source = strip (or_default (r ''source'') (lit ''app_reviews''));
                  country = or_none (strip (or_empty (r ''country'')));
                  platform = or_none (strip (or_empty (r ''platform'')));
                  user_type = or_none (strip (or_empty (r ''user_type'')));
                  rating_raw = strip (or_empty (r ''rating''))
              in case (if isdigit x rating_raw
                       then map_sum id Some (int_digits x 0 rating_raw)
                       else Inr None) of
                   Inl e \<Rightarrow> (Inl e, w1)
                 | Inr rating \<Rightarrow>
                     (let created_at_raw = strip (or_empty (r ''created_at''));
                          created_at = (if created_at_raw \<noteq> [] then Some created_at_raw else None);
                          vals = [PStr source, opt_str country, opt_str platform, opt_int rating,
                                  opt_str user_type, opt_str created_at, PStr text, PVec emb];
                          w2 = log_call (Execute insert_sql (Positional vals)) w1
                      in if \<not> pg_accepts x (feedback w2) vals then (Inl StoreError, w2)
                         else ingest_rows x api_key embed_model
                                (w2\<lparr>feedback := feedback w2 @
                                   [\<lparr>fr_id = pg_new_id x (feedback w2), fr_source = source,
                                     fr_country = country, fr_platform = platform,
                                     fr_rating = rating, fr_user_type = user_type,
                                     fr_created_at = created_at, fr_text = text,
                                     fr_embedding = emb\<rparr>]\<rparr>)
                                (rows_inserted + 1) rs))))"

text \<open>
  \<open>main\<close>; \<open>csv\<close> is the content of the seed file, \<open>None\<close> when it cannot be opened.
  The result is the number of rows inserted.
\<close>

definition main :: "extern \<Rightarrow> world \<Rightarrow> csv_row list option \<Rightarrow> (error + nat) \<times> world" where
  "main x w csv =
     (case require_env w ''SUPABASE_DB_URL'' of
        Inl e \<Rightarrow> (Inl e, w)
      | Inr db_url \<Rightarrow>
          (case require_env w ''OPENAI_API_KEY'' of
             Inl e \<Rightarrow> (Inl e, w)
           | Inr api_key \<Rightarrow>
               (let embed_model =
                      getenv_default w ''OPENAI_EMBED_MODEL'' (lit ''text-embedding-3-small'');
                    w1 = log_call (Connect (Some db_url)) w
                in if \<not> pg_connect x (Some db_url) then (Inl StoreError, w1)
                   else
                     (let w2 = log_call (Execute delete_sql NoParams) w1 in
                      if \<not> pg_can_delete x (feedback w2) then (Inl StoreError, w2)
                      else
                        (let w3 = w2\<lparr>feedback := []\<rparr> in
                         case csv of
                           None \<Rightarrow> (Inl OSError, w3)
                         | Some rows \<Rightarrow> ingest_rows x api_key embed_model w3 0 rows)))))"

section \<open>scripts/pm\_agent.py and scripts/weekly\_pm\_brief.py\<close>

text \<open>\<open>str(v)\<close>.\<close>

function str_of_nat :: "nat \<Rightarrow> pystr" where
  "str_of_nat n = (if n < 10 then [48 + n] else str_of_nat (n div 10) @ [48 + n mod 10])"
  by pat_completeness auto
termination
  by (relation "measure id") auto

definition str_of_int :: "int \<Rightarrow> pystr" where
  "str_of_int i = (if i < 0 then 45 # str_of_nat (nat (- i)) else str_of_nat (nat i))"

fun py_str :: "extern \<Rightarrow> pyval \<Rightarrow> pystr" where
  "py_str x PNone = lit ''None''"
| "py_str x (PInt i) = str_of_int i"
| "py_str x (PFloat r) = repr_float x r"
| "py_str x (PStr s) = s"
| "py_str x (PVec v) = lit ''['' @ join (lit '', '') (map (repr_float x) v) @ lit '']''"

text \<open>\<open>format(v, '.3f')\<close>.\<close>

fun format_f :: "extern \<Rightarrow> pyval \<Rightarrow> error + pystr" where
  "format_f x PNone = Inl TypeError"
| "format_f x (PInt i) = Inr (format_3f x (of_int i))"
| "format_f x (PFloat r) = Inr (format_3f x r)"
| "format_f x (PStr s) = Inl ValueError"
| "format_f x (PVec v) = Inl TypeError"

text \<open>\<open>e.get(k, d)\<close>.\<close>

definition dict_get :: "pydict \<Rightarrow> string \<Rightarrow> pyval \<Rightarrow> pyval" where
  "dict_get e k d = (case map_of e k of None \<Rightarrow> d | Some v \<Rightarrow> v)"

definition analysis_head :: pystr where
  "analysis_head = concat
    [lit ''\<newline>'',
     lit ''## Summary\<newline>'',
     lit ''Payment failures on Android may be caused by a mix of **UI confusion** (users think payment failed, abandon, or mis-tap) and **platform-specific integration issues** (SDK, network, or auth differences).\<newline>'',
     lit ''\<newline>'',
     lit ''## What the evidence suggests\<newline>'']"

definition analysis_tail :: pystr where
  "analysis_tail = concat
    [lit ''\<newline>'',
     lit ''\<newline>'',
     lit ''## Likely root-cause buckets\<newline>'',
     lit ''- **UI/UX:** confusing CTA, unclear error states, payment method selection friction, redirect issues\<newline>'',
     lit ''- **Integration:** Android SDK mismatch, webview/3DS handoff problems, billing permissions, play services\<newline>'',
     lit ''- **Backend:** idempotency handling, gateway error mapping, retries causing double-fail perception\<newline>'',
     lit ''\<newline>'',
     lit ''## Recommended next steps\<newline>'',
     lit ''- Add **structured logging** on Android payment flow (start '' @ [8594] @ lit '' method selected '' @ [8594] @ lit '' auth '' @ [8594] @ lit '' confirmation).\<newline>'',
     lit ''- Compare Android vs iOS funnel: **attempt rate, auth-fail rate, drop-off step**.\<newline>'',
     lit ''- Run targeted testing on Android devices with varied OS versions + network conditions.\<newline>'',
     lit ''\<newline>'',
     lit ''## Follow-up questions\<newline>'',
     lit ''- Are there Android-specific error logs or user reports tied to payment failures?\<newline>'',
     lit ''- Is Android payment UI identical to iOS, or are there platform-specific differences?\<newline>'',
     lit ''- What is the payment failure rate on Android vs iOS?\<newline>'']"

definition brief_head :: pystr where
  "brief_head = concat
    [lit ''\<newline>'',
     lit ''## Weekly PM Brief '' @ [8212] @ lit '' Payments Reliability\<newline>'',
     lit ''\<newline>'',
     lit ''### This week'' @ [8217] @ lit ''s headline\<newline>'',
     lit ''Investigate Android payment failures end-to-end and validate whether the issue is **technical**, **UX-driven**, or both.\<newline>'',
     lit ''\<newline>'',
     lit ''### Why it matters\<newline>'',
     lit ''Payment failures directly impact **conversion**, **revenue**, and **user trust**. Android-specific issues can quietly grow if we don'' @ [8217] @ lit ''t measure funnel drop-offs by platform.\<newline>'',
     lit ''\<newline>'',
     lit ''### Evidence used\<newline>'',
     lit ''- Evidence IDs: '']"

definition brief_tail :: pystr where
  "brief_tail = concat
    [lit ''\<newline>'',
     lit ''\<newline>'',
     lit ''### What we think is happening\<newline>'',
     lit ''- Users may be experiencing **confusing payment UI states** (success/failure ambiguity).\<newline>'',
     lit ''- There may be Android-only **handoff/auth/SDK** issues (e.g., 3DS, webview redirects, device/network variance).\<newline>'',
     lit ''\<newline>'',
     lit ''### Metrics to watch\<newline>'',
     lit ''- Payment funnel by step (Android vs iOS): attempt '' @ [8594] @ lit '' auth '' @ [8594] @ lit '' confirm '' @ [8594] @ lit '' success\<newline>'',
     lit ''- Failure reasons distribution (gateway codes mapped to user-visible errors)\<newline>'',
     lit ''- Drop-off rate at '' @ [8220] @ lit ''confirm payment'' @ [8221] @ lit '' step\<newline>'',
     lit ''\<newline>'',
     lit ''### Proposed plan (next 5 days)\<newline>'',
     lit ''- Day 1'' @ [8211] @ lit ''2: add logs + dashboard for Android payment steps\<newline>'',
     lit ''- Day 3: replicate on top devices/OS versions; capture screen recordings\<newline>'',
     lit ''- Day 4: ship quick UX patch for error states if needed\<newline>'',
     lit ''- Day 5: validate impact with funnel deltas + support ticket trend\<newline>'',
     lit ''\<newline>'',
     lit ''### Risks / dependencies\<newline>'',
     lit ''- Payment provider SDK version differences\<newline>'',
     lit ''- Error mapping may be hiding true causes (generic '' @ [8220] @ lit ''failed'' @ [8221] @ lit '')\<newline>'',
     lit ''\<newline>'',
     lit ''### Draft Jira ticket (copy/paste)\<newline>'',
     lit ''**Title:** Investigate and Resolve Payment Failures on Android  \<newline>'',
     lit ''**Severity:** S2  \<newline>'',
     lit ''**Problem:** Reports of payment failures on Android with unclear cause; evidence suggests possible UI confusion patterns.  \<newline>'',
     lit ''**Acceptance Criteria:**  \<newline>'',
     lit ''- Funnel + error logging added for Android payment flow  \<newline>'',
     lit ''- Failure rate measured and compared vs iOS  \<newline>'',
     lit ''- Root cause identified (UX vs integration vs backend)  \<newline>'',
     lit ''- Fix deployed + verified via metrics improvement\<newline>'']"


definition evidence_line :: "extern \<Rightarrow> pydict \<Rightarrow> error + pystr" where
  "evidence_line x e =
     (case format_f x (dict_get e ''similarity'' (PInt 0)) of
        Inl err \<Rightarrow> Inl err
      | Inr sim \<Rightarrow>
          Inr (lit ''- Evidence #'' @ py_str x (dict_get e ''evidence_id'' (PStr (lit ''?'')))
               @ lit '' ('' @ py_str x (dict_get e ''platform'' (PStr (lit ''?'')))
               @ lit '' '' @ py_str x (dict_get e ''country'' (PStr (lit ''?'')))
               @ lit '', sim '' @ sim @ lit ''): ''
               @ py_str x (dict_get e ''text'' (PStr []))))"

fun evidence_lines_loop :: "extern \<Rightarrow> pystr list \<Rightarrow> pydict list \<Rightarrow> error + pystr list" where
  "evidence_lines_loop x evidence_lines [] = Inr evidence_lines"
| "evidence_lines_loop x evidence_lines (e # es) =
     (case evidence_line x e of
        Inl err \<Rightarrow> Inl err
      | Inr l \<Rightarrow> evidence_lines_loop x (evidence_lines @ [l]) es)"

definition run_agentic_analysis :: "extern \<Rightarrow> pystr \<Rightarrow> pydict list \<Rightarrow> error + pystr" where
  "run_agentic_analysis x question evidence =
     (case evidence_lines_loop x [] evidence of
        Inl err \<Rightarrow> Inl err
      | Inr evidence_lines \<Rightarrow>
          Inr (strip (analysis_head
                 @ (if evidence_lines \<noteq> [] then join [10] evidence_lines
                    else lit ''- No evidence retrieved.'')
                 @ analysis_tail)))"

definition generate_weekly_pm_brief :: "extern \<Rightarrow> pystr \<Rightarrow> pydict list \<Rightarrow> pystr" where
  "generate_weekly_pm_brief x question evidence =
     (let evidence_ids =
            map (\<lambda>e. py_str x (dict_get e ''evidence_id'' PNone))
              (filter (\<lambda>e. dict_get e ''evidence_id'' PNone \<noteq> PNone) evidence);
          evidence_ids_txt =
            (if evidence_ids \<noteq> [] then join (lit '', '') evidence_ids else lit ''None'')
      in strip (brief_head @ evidence_ids_txt @ brief_tail))"

section \<open>Test doubles\<close>

text \<open>
  Concrete collaborators and worlds on which the theorems below are exercised: a
  provider that answers every request with the same vector and a store that accepts
  every connection and statement and answers every query with the same two rows,
  whatever the limit it is given.
\<close>

definition sample_rows :: "row list" where
  "sample_rows =
     [[PInt 7, PStr (lit ''Payment failed twice''), PStr (lit ''IN''), PStr (lit ''Android''),
       PInt 1, PFloat (91 / 100)],
      [PInt 3, PStr (lit ''Card declined''), PNone, PStr (lit ''Android''),
       PNone, PFloat (78 / 100)]]"

text \<open>Two rows in the column order of the statement of \<open>src/agents/retrieval.py\<close>.\<close>

definition retrieval_rows :: "row list" where
  "retrieval_rows =
     [[PInt 4, PStr (lit ''IN''), PStr (lit ''Android''), PInt 2,
       PStr (lit ''Checkout is slow''), PFloat 1],
      [PInt 3, PNone, PStr (lit ''Android''), PNone,
       PStr (lit ''Card declined''), PFloat 0]]"

definition stub_extern :: extern where
  "stub_extern =
     \<lparr>embeddings_create = (\<lambda>key model input. Some [1, 0]),
      pg_connect = (\<lambda>url. True),
      pg_match_feedback = (\<lambda>table q k country platform user_type. Some sample_rows),
      pg_execute = (\<lambda>table sql ps. Some retrieval_rows),
      pg_can_delete = (\<lambda>table. True),
      pg_accepts = (\<lambda>table vals. True),
      pg_new_id = (\<lambda>table. PInt (int (length table) + 1)),
      float_of_str = [lit ''0.5'' \<mapsto> 1 / 2],
      repr_float = (\<lambda>r. lit ''0.5''),
      format_3f = (\<lambda>r. lit ''0.500''),
      decimal_digit = Map.empty,
      other_digit = (\<lambda>c. c = 178)\<rparr>"

definition sample_table :: "feedback_record list" where
  "sample_table =
     [\<lparr>fr_id = PInt 1, fr_source = lit ''app_reviews'', fr_country = Some (lit ''IN''),
       fr_platform = Some (lit ''Android''), fr_rating = Some 1, fr_user_type = None,
       fr_created_at = None, fr_text = lit ''Payment failed twice'', fr_embedding = [0, 1]\<rparr>,
      \<lparr>fr_id = PInt 2, fr_source = lit ''app_reviews'', fr_country = Some (lit ''US''),
       fr_platform = Some (lit ''iOS''), fr_rating = Some 5, fr_user_type = None,
       fr_created_at = None, fr_text = lit ''Love it'', fr_embedding = [1, 0]\<rparr>,
      \<lparr>fr_id = PInt 3, fr_source = lit ''app_reviews'', fr_country = None,
       fr_platform = Some (lit ''Android''), fr_rating = None, fr_user_type = None,
       fr_created_at = None, fr_text = lit ''Card declined'', fr_embedding = [1 / 2, 1 / 2]\<rparr>,
      \<lparr>fr_id = PInt 4, fr_source = lit ''app_reviews'', fr_country = Some (lit ''IN''),
       fr_platform = Some (lit ''Android''), fr_rating = Some 2, fr_user_type = None,
       fr_created_at = None, fr_text = lit ''Checkout is slow'', fr_embedding = [1, 0]\<rparr>]"

definition bare_world :: world where
  "bare_world = \<lparr>environ = Map.empty, client = None, feedback = sample_table, calls = []\<rparr>"

definition keyless_world :: world where
  "keyless_world =
     \<lparr>environ = [''SUPABASE_DB_URL'' \<mapsto> lit ''postgresql://db''], client = None,
      feedback = sample_table, calls = []\<rparr>"

definition configured_world :: world where
  "configured_world =
     \<lparr>environ = [''SUPABASE_DB_URL'' \<mapsto> lit ''postgresql://db'',
                 ''OPENAI_API_KEY'' \<mapsto> lit ''sk-test''],
      client = None, feedback = sample_table, calls = []\<rparr>"

definition sample_csv :: "csv_row list" where
  "sample_csv =
     [[''text'' \<mapsto> lit '' Payment failed twice '', ''platform'' \<mapsto> lit ''Android'',
       ''rating'' \<mapsto> lit ''1''],
      [''text'' \<mapsto> lit ''   '', ''platform'' \<mapsto> lit ''iOS''],
      [''platform'' \<mapsto> lit ''Web'', ''rating'' \<mapsto> lit ''4''],
      [''text'' \<mapsto> lit ''Love it'', ''country'' \<mapsto> lit ''US'', ''rating'' \<mapsto> lit ''n/a'']]"

definition sample_records :: "pydict list" where
  "sample_records =
     [[(''id'', PInt 7), (''text'', PStr (lit ''Payment failed twice'')),
       (''country'', PStr (lit ''IN'')), (''platform'', PStr (lit ''Android'')),
       (''rating'', PInt 1), (''similarity'', PFloat (91 / 100))],
      [(''id'', PInt 3), (''text'', PStr (lit ''Card declined'')),
       (''country'', PNone), (''platform'', PStr (lit ''Android'')),
       (''rating'', PNone), (''similarity'', PFloat (78 / 100))]]"

definition retrieval_records :: "pydict list" where
  "retrieval_records =
     [[(''id'', PInt 4), (''country'', PStr (lit ''IN'')),
       (''platform'', PStr (lit ''Android'')), (''rating'', PInt 2),
       (''text'', PStr (lit ''Checkout is slow'')), (''score'', PFloat 1)],
      [(''id'', PInt 3), (''country'', PNone),
       (''platform'', PStr (lit ''Android'')), (''rating'', PNone),
       (''text'', PStr (lit ''Card declined'')), (''score'', PFloat 0)]]"


definition empty_store_extern :: extern where
  "empty_store_extern =
     stub_extern\<lparr>pg_match_feedback := (\<lambda>table q k country platform user_type. Some [])\<rparr>"

section \<open>Strings\<close>

lemma rev_dropWhile_rev_prefix: "\<exists>v. t = rev (dropWhile P (rev t)) @ v"
  by (metis rev_append rev_rev_ident takeWhile_dropWhile_id)

lemma dropWhile_rev_dropWhile:
  "dropWhile P (rev (dropWhile P (rev (dropWhile P s)))) = rev (dropWhile P (rev (dropWhile P s)))"
proof -
  define t where "t = dropWhile P s"
  define u where "u = rev (dropWhile P (rev t))"
  have "dropWhile P u = u"
  proof (cases u)
    case Nil
    then show ?thesis by simp
  next
    case (Cons a u')
    obtain v where v: "t = u @ v"
      unfolding u_def using rev_dropWhile_rev_prefix by blast
    then have "t \<noteq> []" using Cons by simp
    then have "\<not> P (hd t)" unfolding t_def by (rule hd_dropWhile)
    moreover have "hd t = a" using v Cons by simp
    ultimately show ?thesis using Cons by simp
  qed
  then show ?thesis unfolding u_def t_def .
qed

lemma strip_strip: "strip (strip s) = strip s"
  unfolding strip_def lstrip_def rstrip_def
  by (simp add: dropWhile_rev_dropWhile)

lemma strip_Nil: "strip [] = []"
  by (simp add: strip_def lstrip_def rstrip_def)

lemma strip_why: "strip (lit ''why'') = lit ''why''"
  by (simp add: strip_def lstrip_def rstrip_def lit_def isspace_def)

section \<open>The loop over the fetched rows\<close>

lemma result_of_row_Inr:
  "result_of_row x r = Inr d \<longleftrightarrow>
     (\<exists>ident content country platform rating similarity f.
        r = [ident, content, country, platform, rating, similarity] \<and>
        py_float x similarity = Inr f \<and>
        d = [(''id'', ident), (''text'', content), (''country'', country),
             (''platform'', platform), (''rating'', rating), (''similarity'', PFloat f)])"
  by (cases "(x, r)" rule: result_of_row.cases) (auto split: sum.splits)

lemma retrieval_result_of_row_Inr:
  "retrieval_result_of_row x r = Inr d \<longleftrightarrow>
     (\<exists>ident country platform rating text score f.
        r = [ident, country, platform, rating, text, score] \<and>
        py_float x score = Inr f \<and>
        d = [(''id'', ident), (''country'', country), (''platform'', platform),
             (''rating'', rating), (''text'', text), (''score'', PFloat f)])"
  by (cases "(x, r)" rule: retrieval_result_of_row.cases) (auto split: sum.splits)

lemma results_loop_Inr:
  "results_loop x acc rows = Inr rs \<longleftrightarrow>
     (\<exists>ds. rs = acc @ ds \<and> list_all2 (\<lambda>r d. result_of_row x r = Inr d) rows ds)"
proof (induction rows arbitrary: acc)
  case Nil
  then show ?case by auto
next
  case (Cons r rows)
  show ?case
  proof (cases "result_of_row x r")
    case (Inl e)
    then show ?thesis by (auto simp: list_all2_Cons1)
  next
    case (Inr d)
    then show ?thesis using Cons.IH [of "acc @ [d]"]
      by (auto simp: list_all2_Cons1)
  qed
qed

lemma retrieval_results_loop_Inr:
  "retrieval_results_loop x acc rows = Inr rs \<longleftrightarrow>
     (\<exists>ds. rs = acc @ ds \<and> list_all2 (\<lambda>r d. retrieval_result_of_row x r = Inr d) rows ds)"
proof (induction rows arbitrary: acc)
  case Nil
  then show ?case by auto
next
  case (Cons r rows)
  show ?case
  proof (cases "retrieval_result_of_row x r")
    case (Inl e)
    then show ?thesis by (auto simp: list_all2_Cons1)
  next
    case (Inr d)
    then show ?thesis using Cons.IH [of "acc @ [d]"]
      by (auto simp: list_all2_Cons1)
  qed
qed

section \<open>The retrieval entry point of scripts/search\_feedback.py\<close>

lemma get_client_keeps:
  "get_client w = (r, w1) \<Longrightarrow>
     calls w1 = calls w \<and> feedback w1 = feedback w \<and> environ w1 = environ w"
  by (auto simp: get_client_def split: option.splits if_splits)

lemma embed_keeps:
  "embed x w t = (r, w1) \<Longrightarrow> feedback w1 = feedback w \<and> environ w1 = environ w"
  by (auto simp: embed_def Let_def log_call_def
      split: option.splits prod.splits sum.splits dest: get_client_keeps)

text \<open>
  C1, as the code has it. For a question that is \<open>None\<close>, empty or whitespace-only,
  \<open>search_feedback\<close> leaves the world as it found it: no call to the embedding provider,
  no call to the store, no client built. It returns the empty list when
  \<open>SUPABASE_DB_URL\<close> is set; the check of that variable comes first, so without it the
  call raises the configuration error instead.
\<close>

theorem blank_question_short_circuit:
  assumes "strip (or_empty query) = []"
  shows "search_feedback x w query top_k country platform user_type =
           (if or_empty (getenv w ''SUPABASE_DB_URL'') = []
            then Inl (RuntimeError ''Missing SUPABASE_DB_URL in .env'')
            else Inr [], w)"
  using assms by (simp add: search_feedback_def split: option.splits)

theorem blank_question_short_circuit_witness:
  "strip (or_empty (Some (lit ''   ''))) = [] \<and>
   search_feedback stub_extern configured_world (Some (lit ''   '')) 5 None None None
     = (Inr [], configured_world)"
proof -
  have h: "strip (or_empty (Some (lit ''   ''))) = []"
    by (simp add: strip_def lstrip_def rstrip_def lit_def isspace_def)
  show ?thesis
    using h blank_question_short_circuit [OF h, of stub_extern configured_world 5 None None None]
    by (simp add: configured_world_def getenv_def lit_def)
qed

text \<open>
  C1 as stated fails: with no \<open>SUPABASE_DB_URL\<close> in the environment a whitespace-only
  question does not give the empty list, it raises.
\<close>

theorem blank_question_unconfigured_counterexample:
  "search_feedback stub_extern bare_world (Some (lit ''   '')) 5 None None None
     = (Inl (RuntimeError ''Missing SUPABASE_DB_URL in .env''), bare_world)"
  by (simp add: search_feedback_def bare_world_def getenv_def)

text \<open>
  C5. Every record that \<open>search_feedback\<close> returns has exactly the keys \<open>id\<close>,
  \<open>text\<close>, \<open>country\<close>, \<open>platform\<close>, \<open>rating\<close> and \<open>similarity\<close>, and the value
  under \<open>similarity\<close> is a float.
\<close>

theorem search_feedback_record_fields:
  assumes "search_feedback x w query top_k country platform user_type = (Inr rs, w')"
    and "d \<in> set rs"
  shows "map fst d = [''id'', ''text'', ''country'', ''platform'', ''rating'', ''similarity'']
         \<and> (\<exists>s. map_of d ''similarity'' = Some (PFloat s))"
proof -
  from assms(1) obtain rows where "results_loop x [] rows = Inr rs \<or> rs = []"
    by (auto simp: search_feedback_def Let_def
        split: option.splits if_splits prod.splits sum.splits)
  with assms(2) have "list_all2 (\<lambda>r d. result_of_row x r = Inr d) rows rs"
    by (auto simp: results_loop_Inr)
  with assms(2) obtain r where "result_of_row x r = Inr d"
    by (auto simp: list_all2_conv_all_nth in_set_conv_nth)
  then show ?thesis by (auto simp: result_of_row_Inr)
qed

theorem search_feedback_record_fields_witness:
  "fst (search_feedback stub_extern configured_world (Some (lit ''why'')) 5 None None None)
     = Inr sample_records
   \<and> map fst (sample_records ! 1)
       = [''id'', ''text'', ''country'', ''platform'', ''rating'', ''similarity'']"
proof -
  let ?run = "search_feedback stub_extern configured_world (Some (lit ''why'')) 5 None None None"
  have r: "fst ?run = Inr sample_records"
    by (simp add: search_feedback_def strip_why embed_def get_client_def getenv_def
        getenv_default_def configured_world_def stub_extern_def sample_rows_def Let_def
        log_call_def sample_records_def)
       (simp add: lit_def)
  then have h1: "?run = (Inr sample_records, snd ?run)" by (metis prod.collapse)
  have h2: "sample_records ! 1 \<in> set sample_records" by (simp add: sample_records_def)
  show ?thesis
    using r search_feedback_record_fields [OF h1 h2] by simp
qed

text \<open>
  C6, as the code has it. Without \<open>SUPABASE_DB_URL\<close> (unset or empty)
  \<open>search_feedback\<close> raises its configuration error for every question and leaves the
  world untouched. Without \<open>OPENAI_API_KEY\<close> it raises the configuration error, again
  with the world untouched, when the store URL is set, the question is not blank and no
  client has been built yet: the key is read only when the first client is built, after
  the blank-question return.
\<close>

theorem missing_configuration_raises:
  "(or_empty (getenv w ''SUPABASE_DB_URL'') = [] \<longrightarrow>
      search_feedback x w query top_k country platform user_type
        = (Inl (RuntimeError ''Missing SUPABASE_DB_URL in .env''), w))
   \<and> (or_empty (getenv w ''SUPABASE_DB_URL'') \<noteq> [] \<and> strip (or_empty query) \<noteq> []
        \<and> client w = None \<and> or_empty (getenv w ''OPENAI_API_KEY'') = [] \<longrightarrow>
      search_feedback x w query top_k country platform user_type
        = (Inl (RuntimeError ''Missing OPENAI_API_KEY in .env''), w))"
  by (auto simp: search_feedback_def embed_def get_client_def Let_def split: option.splits)

theorem missing_configuration_raises_witness:
  "or_empty (getenv bare_world ''SUPABASE_DB_URL'') = []
   \<and> search_feedback stub_extern bare_world (Some (lit ''why'')) 5 None None None
       = (Inl (RuntimeError ''Missing SUPABASE_DB_URL in .env''), bare_world)
   \<and> or_empty (getenv keyless_world ''SUPABASE_DB_URL'') \<noteq> []
   \<and> strip (or_empty (Some (lit ''why''))) \<noteq> []
   \<and> client keyless_world = None
   \<and> or_empty (getenv keyless_world ''OPENAI_API_KEY'') = []
   \<and> search_feedback stub_extern keyless_world (Some (lit ''why'')) 5 None None None
       = (Inl (RuntimeError ''Missing OPENAI_API_KEY in .env''), keyless_world)"
proof -
  have a: "or_empty (getenv bare_world ''SUPABASE_DB_URL'') = []"
    by (simp add: getenv_def bare_world_def)
  have b: "or_empty (getenv keyless_world ''SUPABASE_DB_URL'') \<noteq> []"
    by (simp add: getenv_def keyless_world_def lit_def)
  have c: "strip (or_empty (Some (lit ''why''))) \<noteq> []"
    by (simp add: strip_why) (simp add: lit_def)
  have d: "client keyless_world = None" by (simp add: keyless_world_def)
  have e: "or_empty (getenv keyless_world ''OPENAI_API_KEY'') = []"
    by (simp add: getenv_def keyless_world_def)
  show ?thesis
    using a b c d e
      missing_configuration_raises [of bare_world stub_extern "Some (lit ''why'')" 5 None None None]
      missing_configuration_raises [of keyless_world stub_extern "Some (lit ''why'')" 5 None None None]
    by simp
qed

text \<open>
  C6 as stated fails: with the store URL set and no API key, a whitespace-only question
  returns the empty list and no configuration error is raised.
\<close>

theorem blank_question_keyless_counterexample:
  "or_empty (getenv keyless_world ''OPENAI_API_KEY'') = []
   \<and> search_feedback stub_extern keyless_world (Some (lit ''   '')) 5 None None None
       = (Inr [], keyless_world)"
  by (simp add: search_feedback_def keyless_world_def getenv_def strip_def lstrip_def rstrip_def)
     (simp add: lit_def isspace_def)

text \<open>
  C9. When the question is not blank, the embedding succeeds, the store accepts the
  connection and \<open>match_feedback\<close> returns no rows, \<open>search_feedback\<close> returns the empty
  list and raises nothing.
\<close>

theorem zero_rows_empty_result:
  assumes "getenv w ''SUPABASE_DB_URL'' = Some db_url" and "db_url \<noteq> []"
    and "strip (or_empty query) \<noteq> []"
    and "embed x w (strip (or_empty query)) = (Inr qvec, w1)"
    and "pg_connect x (Some db_url)"
    and "pg_match_feedback x (feedback w) qvec top_k country platform user_type = Some []"
  shows "fst (search_feedback x w query top_k country platform user_type) = Inr []"
  using assms embed_keeps [OF assms(4)]
  by (simp add: search_feedback_def Let_def log_call_def)

theorem zero_rows_empty_result_witness:
  "getenv configured_world ''SUPABASE_DB_URL'' = Some (lit ''postgresql://db'')
   \<and> strip (or_empty (Some (lit ''why''))) \<noteq> []
   \<and> fst (embed empty_store_extern configured_world (strip (or_empty (Some (lit ''why'')))))
       = Inr [1, 0]
   \<and> pg_match_feedback empty_store_extern (feedback configured_world) [1, 0] 5 None None None
       = Some []
   \<and> fst (search_feedback empty_store_extern configured_world (Some (lit ''why'')) 5
             None None None) = Inr []"
proof -
  let ?w = configured_world and ?x = empty_store_extern and ?q = "Some (lit ''why'')"
  have h1: "getenv ?w ''SUPABASE_DB_URL'' = Some (lit ''postgresql://db'')"
    by (simp add: getenv_def configured_world_def)
  have h2: "lit ''postgresql://db'' \<noteq> []" by (simp add: lit_def)
  have h3: "strip (or_empty ?q) \<noteq> []" by (simp add: strip_why) (simp add: lit_def)
  have e: "fst (embed ?x ?w (strip (or_empty ?q))) = Inr [1, 0]"
    by (simp add: embed_def get_client_def getenv_def configured_world_def lit_def
        empty_store_extern_def stub_extern_def Let_def)
  then have h4: "embed ?x ?w (strip (or_empty ?q))
      = (Inr [1, 0], snd (embed ?x ?w (strip (or_empty ?q))))"
    by (metis prod.collapse)
  have h5: "pg_connect ?x (Some (lit ''postgresql://db''))"
    by (simp add: empty_store_extern_def stub_extern_def)
  have h6: "pg_match_feedback ?x (feedback ?w) [1, 0] 5 None None None = Some []"
    by (simp add: empty_store_extern_def stub_extern_def)
  show ?thesis
    using h1 h3 e h6 zero_rows_empty_result [OF h1 h2 h3 h4 h5 h6] by simp
qed

section \<open>The result mapper\<close>





text \<open>
  C7. When the loop over the fetched rows returns, its result has as many records as
  there were rows and the record at each position is the one built from the row at that
  position. This holds for the loop of \<open>scripts/search_feedback.py\<close> and for the loop
  of \<open>src/agents/retrieval.py\<close>.
\<close>

theorem result_mapper_order:
  "(results_loop x [] rows = Inr rs \<longrightarrow>
      length rs = length rows \<and> (\<forall>i<length rows. result_of_row x (rows ! i) = Inr (rs ! i)))
   \<and> (retrieval_results_loop x [] rows = Inr rs' \<longrightarrow>
      length rs' = length rows
      \<and> (\<forall>i<length rows. retrieval_result_of_row x (rows ! i) = Inr (rs' ! i)))"
  by (auto simp: results_loop_Inr retrieval_results_loop_Inr list_all2_conv_all_nth)

theorem result_mapper_order_witness:
  "results_loop stub_extern [] sample_rows = Inr sample_records
   \<and> retrieval_results_loop stub_extern [] retrieval_rows = Inr retrieval_records
   \<and> length sample_records = length sample_rows
   \<and> result_of_row stub_extern (sample_rows ! 1) = Inr (sample_records ! 1)
   \<and> length retrieval_records = length retrieval_rows
   \<and> retrieval_result_of_row stub_extern (retrieval_rows ! 1) = Inr (retrieval_records ! 1)"
proof -
  have a: "results_loop stub_extern [] sample_rows = Inr sample_records"
    by (simp add: sample_rows_def sample_records_def)
  have b: "retrieval_results_loop stub_extern [] retrieval_rows = Inr retrieval_records"
    by (simp add: retrieval_rows_def retrieval_records_def)
  have c: "1 < length sample_rows" "1 < length retrieval_rows"
    by (simp_all add: sample_rows_def retrieval_rows_def)
  have "length sample_records = length sample_rows
      \<and> result_of_row stub_extern (sample_rows ! 1) = Inr (sample_records ! 1)"
    using a c(1)
      result_mapper_order [of stub_extern sample_rows sample_records retrieval_records]
    by blast
  moreover have "length retrieval_records = length retrieval_rows
      \<and> retrieval_result_of_row stub_extern (retrieval_rows ! 1) = Inr (retrieval_records ! 1)"
    using b c(2)
      result_mapper_order [of stub_extern retrieval_rows sample_records retrieval_records]
    by blast
  ultimately show ?thesis using a b by simp
qed








text \<open>
  \<open>scripts/search_feedback.py\<close> builds no predicate of its own: when it reaches the
  store, the three filter values are bound to the statement as they were passed in.
\<close>

lemma search_feedback_forwards_filters:
  assumes "search_feedback x w query top_k country platform user_type = (Inr rs, w')"
    and "strip (or_empty query) \<noteq> []"
  shows "\<exists>qvec. last (calls w') = Execute match_feedback_sql
           (Positional [PVec qvec, PInt top_k, opt_str country, opt_str platform,
                        opt_str user_type])"
  using assms unfolding search_feedback_def Let_def
  by (auto simp: log_call_def split: option.splits if_splits prod.splits sum.splits)

section \<open>The query of src/agents/retrieval.py\<close>

text \<open>
  C3, as the code has it. The query builder of \<open>src/agents/retrieval.py\<close> knows the
  keys \<open>platform\<close> and \<open>country\<close>. A value that is \<open>None\<close>, empty or
  whitespace-only adds no predicate and no parameter; any other value adds exactly one
  equality predicate on its column, bound to the stripped value; the predicates are
  joined by \<open>and\<close> behind \<open>where\<close>, and with both values blank the where clause is
  empty.
\<close>

theorem retrieval_filters_predicates:
  "retrieval_filters platform country q_emb top_k =
     ((if strip (or_empty platform) = [] then [] else [''platform = %(platform)s''])
        @ (if strip (or_empty country) = [] then [] else [''country = %(country)s'']),
      [(''q_emb'', PVec q_emb), (''k'', PInt top_k)]
        @ (if strip (or_empty platform) = [] then []
           else [(''platform'', PStr (strip (or_empty platform)))])
        @ (if strip (or_empty country) = [] then []
           else [(''country'', PStr (strip (or_empty country)))]))
   \<and> where_clause (fst (retrieval_filters platform country q_emb top_k)) =
       (if strip (or_empty platform) = []
        then (if strip (or_empty country) = [] then [] else ''where country = %(country)s'')
        else (if strip (or_empty country) = [] then ''where platform = %(platform)s''
              else ''where platform = %(platform)s and country = %(country)s''))"
  by (cases platform; cases country)
     (auto simp: retrieval_filters_def where_clause_def strip_Nil Let_def)

theorem retrieval_filters_predicates_witness:
  "retrieval_filters (Some (lit '' Android '')) (Some (lit ''  '')) [1, 0] 3
     = ([''platform = %(platform)s''],
        [(''q_emb'', PVec [1, 0]), (''k'', PInt 3), (''platform'', PStr (lit ''Android''))])
   \<and> where_clause (fst (retrieval_filters (Some (lit '' Android '')) (Some (lit ''  '')) [1, 0] 3))
       = ''where platform = %(platform)s''
   \<and> where_clause (fst (retrieval_filters None (Some []) [1, 0] 3)) = []"
proof -
  have a: "strip (lit '' Android '') = lit ''Android''"
    by (simp add: strip_def lstrip_def rstrip_def lit_def isspace_def)
  have b: "strip (lit ''  '') = []"
    by (simp add: strip_def lstrip_def rstrip_def lit_def isspace_def)
  have c: "lit ''Android'' \<noteq> []" by (simp add: lit_def)
  show ?thesis
    using retrieval_filters_predicates [of "Some (lit '' Android '')" "Some (lit ''  '')" "[1, 0]" 3]
      retrieval_filters_predicates [of None "Some []" "[1, 0]" 3]
    by (simp add: a b c strip_Nil where_clause_def)
qed

text \<open>
  C3 as stated fails for the key \<open>user_type\<close>: the builder takes no such argument, so a
  filter mapping whose only entry is a non-blank \<open>user_type\<close> yields a statement without
  any predicate.
\<close>

theorem user_type_counterexample:
  "strip (or_empty ([''user_type'' \<mapsto> lit ''pro''] ''user_type'')) \<noteq> []
   \<and> fst (retrieval_filters ([''user_type'' \<mapsto> lit ''pro''] ''platform'')
            ([''user_type'' \<mapsto> lit ''pro''] ''country'') [1, 0] 3) = []"
  by (simp add: retrieval_filters_def strip_def lstrip_def rstrip_def lit_def isspace_def)

text \<open>
  \<open>src/agents/retrieval.py\<close> hands its statement and parameters to the store and
  turns the rows it gets back into records.
\<close>

lemma retrieval_search_Inr:
  assumes "retrieval_search_feedback x c w question top_k platform country = (Inr rs, w')"
  shows "\<exists>q_emb rows.
           pg_execute x (feedback w)
             (retrieval_sql (where_clause (fst (retrieval_filters platform country q_emb top_k))))
             (Named (snd (retrieval_filters platform country q_emb top_k))) = Some rows
           \<and> retrieval_results_loop x [] rows = Inr rs"
  using assms unfolding retrieval_search_feedback_def embed_text_def Let_def
  apply (auto simp: log_call_def split: option.splits if_splits prod.splits sum.splits)
  subgoal for q_emb by (rule exI [of _ q_emb]) simp
  done

lemma retrieval_always_embeds:
  "\<exists>ev. calls (snd (retrieval_search_feedback x c w question top_k platform country))
          = calls w @ EmbeddingsCreate c
              (getenv_default w ''OPENAI_EMBED_MODEL'' (lit ''text-embedding-3-small''))
              question # ev"
  unfolding retrieval_search_feedback_def embed_text_def Let_def
  by (auto simp: log_call_def split: option.splits prod.splits)

lemma retrieval_record_fields:
  assumes "retrieval_search_feedback x c w question top_k platform country = (Inr rs, w')"
    and "d \<in> set rs"
  shows "map fst d = [''id'', ''country'', ''platform'', ''rating'', ''text'', ''score'']"
proof -
  from retrieval_search_Inr [OF assms(1)] obtain rows where
    "retrieval_results_loop x [] rows = Inr rs" by blast
  then have "list_all2 (\<lambda>r d. retrieval_result_of_row x r = Inr d) rows rs"
    by (simp add: retrieval_results_loop_Inr)
  with assms(2) obtain r where "retrieval_result_of_row x r = Inr d"
    by (auto simp: list_all2_conv_all_nth in_set_conv_nth)
  then show ?thesis by (auto simp: retrieval_result_of_row_Inr)
qed

lemma retrieval_zero_rows_empty_result:
  assumes "embed_text x c w question
             (getenv_default w ''OPENAI_EMBED_MODEL'' (lit ''text-embedding-3-small''))
           = (Inr q_emb, w1)"
    and "pg_connect x (getenv w ''SUPABASE_DB_URL'')"
    and "pg_execute x (feedback w)
           (retrieval_sql (where_clause (fst (retrieval_filters platform country q_emb top_k))))
           (Named (snd (retrieval_filters platform country q_emb top_k))) = Some []"
  shows "fst (retrieval_search_feedback x c w question top_k platform country) = Inr []"
proof -
  from assms(1) have "feedback w1 = feedback w"
    by (auto simp: embed_text_def Let_def log_call_def split: option.splits)
  with assms show ?thesis
    by (auto simp: retrieval_search_feedback_def Let_def log_call_def split: prod.splits)
qed

section \<open>The ingestion job\<close>

lemma ingest_rows_inv:
  "ingest_rows x key model w n rows = (res, w') \<Longrightarrow>
     \<exists>new ev.
        feedback w' = feedback w @ new
        \<and> calls w' = calls w @ ev
        \<and> (\<forall>r\<in>set new. strip (fr_text r) \<noteq> [])
        \<and> (\<forall>ps. Execute insert_sql (Positional ps) \<in> set ev
               \<longrightarrow> (\<exists>t. ps ! 6 = PStr t \<and> strip t \<noteq> []))
        \<and> (\<forall>m. res = Inr m \<longrightarrow>
               map fr_text new
                 = filter (\<lambda>t. t \<noteq> []) (map (\<lambda>r. strip (or_empty (r ''text''))) rows)
               \<and> m = n + length new)"
proof (induction rows arbitrary: w n)
  case Nil
  then show ?case by auto
next
  case (Cons r rows)
  let ?text = "strip (or_empty (r ''text''))"
  show ?case
  proof (cases "?text = []")
    case True
    with Cons.prems have "ingest_rows x key model w n rows = (res, w')" by simp
    from Cons.IH [OF this] True show ?thesis by auto
  next
    case False
    let ?w1 = "log_call (EmbeddingsCreate key model ?text) w"
    show ?thesis
    proof (cases "embeddings_create x key model ?text")
      case None
      with False Cons.prems have "res = Inl ProviderError" "w' = ?w1"
        by (auto simp: Let_def)
      then show ?thesis by (auto simp: log_call_def)
    next
      case (Some emb)
      let ?raw = "strip (or_empty (r ''rating''))"
      let ?rt = "if isdigit x ?raw then map_sum id Some (int_digits x 0 ?raw) else Inr None"
      show ?thesis
      proof (cases ?rt)
        case (Inl e)
        with False Some Cons.prems have "res = Inl e" "w' = ?w1"
          by (auto simp: Let_def)
        then show ?thesis by (auto simp: log_call_def)
      next
        case (Inr rating)
        let ?vals = "[PStr (strip (or_default (r ''source'') (lit ''app_reviews''))),
                      opt_str (or_none (strip (or_empty (r ''country'')))),
                      opt_str (or_none (strip (or_empty (r ''platform'')))),
                      opt_int rating,
                      opt_str (or_none (strip (or_empty (r ''user_type'')))),
                      opt_str (if strip (or_empty (r ''created_at'')) \<noteq> []
                               then Some (strip (or_empty (r ''created_at''))) else None),
                      PStr ?text, PVec emb]"
        let ?w2 = "log_call (Execute insert_sql (Positional ?vals)) ?w1"
        let ?rec = "\<lparr>fr_id = pg_new_id x (feedback ?w2),
                      fr_source = strip (or_default (r ''source'') (lit ''app_reviews'')),
                      fr_country = or_none (strip (or_empty (r ''country''))),
                      fr_platform = or_none (strip (or_empty (r ''platform''))),
                      fr_rating = rating,
                      fr_user_type = or_none (strip (or_empty (r ''user_type''))),
                      fr_created_at = (if strip (or_empty (r ''created_at'')) \<noteq> []
                               then Some (strip (or_empty (r ''created_at''))) else None),
                      fr_text = ?text, fr_embedding = emb\<rparr>"
        show ?thesis
        proof (cases "pg_accepts x (feedback ?w2) ?vals")
          case no: False
          with False Some Inr Cons.prems have "res = Inl StoreError" "w' = ?w2"
            by (auto simp: Let_def)
          then show ?thesis using False by (auto simp: log_call_def strip_strip)
        next
          case yes: True
          with False Some Inr Cons.prems
          have "ingest_rows x key model (?w2\<lparr>feedback := feedback ?w2 @ [?rec]\<rparr>) (n + 1) rows
                  = (res, w')"
            by (auto simp: Let_def)
          from Cons.IH [OF this] obtain new ev where
            a: "feedback w' = feedback w @ [?rec] @ new"
            and b: "calls w' = calls w @ [EmbeddingsCreate key model ?text,
                      Execute insert_sql (Positional ?vals)] @ ev"
            and c: "\<forall>r\<in>set new. strip (fr_text r) \<noteq> []"
            and d: "\<forall>ps. Execute insert_sql (Positional ps) \<in> set ev
                      \<longrightarrow> (\<exists>t. ps ! 6 = PStr t \<and> strip t \<noteq> [])"
            and e: "\<forall>m. res = Inr m \<longrightarrow>
               map fr_text new
                 = filter (\<lambda>t. t \<noteq> []) (map (\<lambda>r. strip (or_empty (r ''text''))) rows)
               \<and> m = n + 1 + length new"
            by (auto simp: log_call_def)
          show ?thesis
            apply (rule exI [of _ "[?rec] @ new"])
            apply (rule exI [of _ "[EmbeddingsCreate key model ?text,
                      Execute insert_sql (Positional ?vals)] @ ev"])
            using a b c d e False by (auto simp: strip_strip)
        qed
      qed
    qed
  qed
qed

text \<open>
  C8. After a run of the ingestion job, whether it ended normally or raised, the table
  is either untouched or holds only records whose text is not blank; every insert the
  job issued carries a text that is not blank; and after a normal end the texts in the
  table are the stripped texts of exactly the rows of the file whose text is not blank,
  in the order of the file.
\<close>

theorem ingest_never_persists_blank_text:
  assumes "main x w csv = (res, w')"
  shows "(feedback w' = feedback w \<or> (\<forall>r\<in>set (feedback w'). strip (fr_text r) \<noteq> []))
     \<and> (\<exists>ev. calls w' = calls w @ ev
            \<and> (\<forall>ps. Execute insert_sql (Positional ps) \<in> set ev
                   \<longrightarrow> (\<exists>t. ps ! 6 = PStr t \<and> strip t \<noteq> [])))
     \<and> (\<forall>m rows. res = Inr m \<and> csv = Some rows \<longrightarrow>
            map fr_text (feedback w')
              = filter (\<lambda>t. t \<noteq> []) (map (\<lambda>r. strip (or_empty (r ''text''))) rows)
            \<and> m = length (feedback w'))"
proof (cases "\<exists>db_url api_key rows. require_env w ''SUPABASE_DB_URL'' = Inr db_url
          \<and> require_env w ''OPENAI_API_KEY'' = Inr api_key \<and> pg_connect x (Some db_url)
          \<and> pg_can_delete x (feedback w) \<and> csv = Some rows")
  case False
  with assms have "res \<noteq> Inr m" for m
    by (auto simp: main_def Let_def log_call_def split: sum.splits if_splits option.splits)
  moreover from False assms have "(feedback w' = feedback w \<or> feedback w' = [])
      \<and> (\<exists>ev. calls w' = calls w @ ev \<and> set ev \<subseteq> range Connect \<union> {Execute delete_sql NoParams})"
    by (auto simp: main_def Let_def log_call_def split: sum.splits if_splits option.splits)
  ultimately show ?thesis by auto
next
  case True
  then obtain db_url api_key rows where
    h: "require_env w ''SUPABASE_DB_URL'' = Inr db_url"
       "require_env w ''OPENAI_API_KEY'' = Inr api_key" "pg_connect x (Some db_url)"
       "pg_can_delete x (feedback w)" "csv = Some rows"
    by blast
  let ?w3 = "(log_call (Execute delete_sql NoParams) (log_call (Connect (Some db_url)) w))
               \<lparr>feedback := []\<rparr>"
  let ?model = "getenv_default w ''OPENAI_EMBED_MODEL'' (lit ''text-embedding-3-small'')"
  from assms h have "ingest_rows x api_key ?model ?w3 0 rows = (res, w')"
    by (simp add: main_def Let_def log_call_def)
  from ingest_rows_inv [OF this] obtain new ev where
    a: "feedback w' = new"
    and b: "calls w' = calls w @ [Connect (Some db_url), Execute delete_sql NoParams] @ ev"
    and c: "\<forall>r\<in>set new. strip (fr_text r) \<noteq> []"
    and d: "\<forall>ps. Execute insert_sql (Positional ps) \<in> set ev
              \<longrightarrow> (\<exists>t. ps ! 6 = PStr t \<and> strip t \<noteq> [])"
    and e: "\<forall>m. res = Inr m \<longrightarrow>
               map fr_text new
                 = filter (\<lambda>t. t \<noteq> []) (map (\<lambda>r. strip (or_empty (r ''text''))) rows)
               \<and> m = length new"
    by (auto simp: log_call_def)
  have "\<exists>ev. calls w' = calls w @ ev
            \<and> (\<forall>ps. Execute insert_sql (Positional ps) \<in> set ev
                   \<longrightarrow> (\<exists>t. ps ! 6 = PStr t \<and> strip t \<noteq> []))"
    by (rule exI [of _ "[Connect (Some db_url), Execute delete_sql NoParams] @ ev"])
       (use b d in auto)
  with a c e h(5) show ?thesis by auto
qed

theorem ingest_never_persists_blank_text_witness:
  "fst (main stub_extern configured_world (Some sample_csv)) = Inr 2
   \<and> map fr_text (feedback (snd (main stub_extern configured_world (Some sample_csv))))
       = [lit ''Payment failed twice'', lit ''Love it'']
   \<and> filter (\<lambda>t. t \<noteq> []) (map (\<lambda>r. strip (or_empty (r ''text''))) sample_csv)
       = [lit ''Payment failed twice'', lit ''Love it'']"
proof -
  let ?run = "main stub_extern configured_world (Some sample_csv)"
  have r: "fst ?run = Inr 2"
    by (simp add: main_def require_env_def getenv_def getenv_default_def configured_world_def
      stub_extern_def sample_csv_def log_call_def Let_def strip_def lstrip_def rstrip_def
      isspace_def isdigit_def isdigit_char_def digit_value_def or_none_def lit_def)
  then have h: "?run = (Inr 2, snd ?run)" by (metis prod.collapse)
  have f: "filter (\<lambda>t. t \<noteq> []) (map (\<lambda>r. strip (or_empty (r ''text''))) sample_csv)
       = [lit ''Payment failed twice'', lit ''Love it'']"
    by (simp add: sample_csv_def strip_def lstrip_def rstrip_def isspace_def lit_def)
  show ?thesis
    using r f ingest_never_persists_blank_text [OF h] by simp
qed

section \<open>The templated generators\<close>

text \<open>
  C10. Neither generator depends on its question: for any two questions and the same
  evidence, \<open>run_agentic_analysis\<close> gives the same result and so does
  \<open>generate_weekly_pm_brief\<close>.
\<close>

theorem generators_ignore_question:
  "run_agentic_analysis x q1 evidence = run_agentic_analysis x q2 evidence
   \<and> generate_weekly_pm_brief x q1 evidence = generate_weekly_pm_brief x q2 evidence"
  by (simp add: run_agentic_analysis_def generate_weekly_pm_brief_def)

theorem generators_ignore_question_witness:
  "run_agentic_analysis stub_extern (lit ''Why is payment failing on Android?'')
       [[(''evidence_id'', PStr (lit ''7'')), (''similarity'', PFloat (91 / 100))]]
     = run_agentic_analysis stub_extern [] 
       [[(''evidence_id'', PStr (lit ''7'')), (''similarity'', PFloat (91 / 100))]]
   \<and> generate_weekly_pm_brief stub_extern (lit ''Why is payment failing on Android?'')
       [[(''evidence_id'', PStr (lit ''7'')), (''similarity'', PFloat (91 / 100))]]
     = generate_weekly_pm_brief stub_extern []
       [[(''evidence_id'', PStr (lit ''7'')), (''similarity'', PFloat (91 / 100))]]"
  using generators_ignore_question [of stub_extern "lit ''Why is payment failing on Android?''"
      "[[(''evidence_id'', PStr (lit ''7'')), (''similarity'', PFloat (91 / 100))]]" "[]"]
  by simp

end
